theory Spec2Isabelle
  imports Main "HOL-Library.AList"
begin

section \<open>Python values, dictionaries and exceptions\<close>

text \<open>
  The authentication core of the contacts API (\<^verbatim>\<open>src/services/auth.py\<close>,
  \<^verbatim>\<open>src/routes/auth.py\<close>, \<^verbatim>\<open>src/repository/users.py\<close>,
  \<^verbatim>\<open>src/services/roles.py\<close>) is embedded with explicit state passing: the
  database table of users and the Redis cache are arguments and results, a raised
  exception is the left summand of the result, and every reading of the clock is an
  argument.

  A claims dictionary is an association list in insertion order, as a Python
  \<^verbatim>\<open>dict\<close> is; \<^verbatim>\<open>dict.update\<close> is \<^const>\<open>AList.update\<close>, which overwrites
  the value of a key in place and appends a new key at the end.
\<close>

datatype pyval = PyStr string | PyInt int | PyNone

type_synonym pydict = "(string \<times> pyval) list"

datatype error =
    HTTPException nat string   \<comment> \<open>status code and detail\<close>
  | JWTError                   \<comment> \<open>python-jose's \<^verbatim>\<open>JWTError\<close> and its subclasses: the handlers catch it\<close>
  | KeyError string            \<comment> \<open>\<^verbatim>\<open>d[k]\<close> on a missing key: uncaught by the handlers\<close>
  | AttributeError string      \<comment> \<open>the attribute read on \<^verbatim>\<open>None\<close>: uncaught by the handlers\<close>
  | TypeError                  \<comment> \<open>\<^verbatim>\<open>int(None)\<close>: uncaught\<close>
  | ValueError                 \<comment> \<open>\<^verbatim>\<open>int\<close> of a text that is no number, a duration of not-a-number\<close>
  | OverflowError              \<comment> \<open>a date or a duration out of range: uncaught\<close>

definition py_get :: "pydict \<Rightarrow> string \<Rightarrow> pyval" where
  \<comment> \<open>\<^verbatim>\<open>d.get(k)\<close>\<close>
  "py_get d k = (case map_of d k of None \<Rightarrow> PyNone | Some v \<Rightarrow> v)"

definition py_index :: "pydict \<Rightarrow> string \<Rightarrow> error + pyval" where
  \<comment> \<open>\<^verbatim>\<open>d[k]\<close>\<close>
  "py_index d k = (case map_of d k of None \<Rightarrow> Inl (KeyError k) | Some v \<Rightarrow> Inr v)"

fun str_nat :: "nat \<Rightarrow> string" where
  "str_nat n =
     (if n < 10 then [char_of (48 + n)]
      else str_nat (n div 10) @ [char_of (48 + n mod 10)])"

definition py_str :: "pyval \<Rightarrow> string" where
  \<comment> \<open>the text an f-string substitutes for a value\<close>
  "py_str v =
     (case v of
        PyStr s \<Rightarrow> s
      | PyInt i \<Rightarrow> (if i < 0 then CHR ''-'' # str_nat (nat (- i)) else str_nat (nat i))
      | PyNone \<Rightarrow> ''None'')"

text \<open>
  \<^verbatim>\<open>int(v)\<close>, which python-jose applies to the time claims. Of a text it takes a
  decimal literal: blanks around it, one sign, digits, and single underscores
  between digits. (Characters outside ASCII and the interpreter's bound on the
  number of digits are not modelled.)
\<close>

definition is_space :: "char \<Rightarrow> bool" where
  "is_space c = (c = CHR 0x09 \<or> c = CHR 0x0A \<or> c = CHR 0x0B \<or> c = CHR 0x0C
                 \<or> c = CHR 0x0D \<or> c = CHR 0x20)"

definition is_digit :: "char \<Rightarrow> bool" where
  "is_digit c = (48 \<le> (of_char c :: nat) \<and> (of_char c :: nat) \<le> 57)"

fun int_digits :: "bool \<Rightarrow> int \<Rightarrow> string \<Rightarrow> int option" where
  \<comment> \<open>the flag says that a digit has to come next\<close>
  "int_digits need acc [] = (if need then None else Some acc)"
| "int_digits need acc (c # cs) =
     (if is_digit c then int_digits False (10 * acc + (int (of_char c) - 48)) cs
      else if c = CHR ''_'' \<and> \<not> need then int_digits True acc cs
      else None)"

definition strip :: "string \<Rightarrow> string" where
  "strip s = dropWhile is_space (rev (dropWhile is_space (rev s)))"

definition int_of_str :: "string \<Rightarrow> int option" where
  "int_of_str s =
     (case strip s of
        [] \<Rightarrow> None
      | c # cs \<Rightarrow>
          if c = CHR ''-'' then map_option uminus (int_digits True 0 cs)
          else if c = CHR ''+'' then int_digits True 0 cs
          else int_digits True 0 (c # cs))"

definition py_int :: "pyval \<Rightarrow> error + int" where
  "py_int v =
     (case v of
        PyInt i \<Rightarrow> Inr i
      | PyStr s \<Rightarrow> (case int_of_str s of None \<Rightarrow> Inl ValueError | Some i \<Rightarrow> Inr i)
      | PyNone \<Rightarrow> Inl TypeError)"

section \<open>Dates and durations\<close>

text \<open>
  A \<^verbatim>\<open>datetime\<close> is the number of microseconds since the epoch, from year 1 to the
  end of year 9999; a \<^verbatim>\<open>timedelta\<close> is a number of microseconds of at most
  999999999 days in magnitude. Adding a duration to a date raises
  \<^verbatim>\<open>OverflowError\<close> when the result is no date. python-jose writes a date into
  a token as whole seconds (\<^verbatim>\<open>timegm\<close> of the time tuple), which drops the
  microseconds: \<open>t div 1000000\<close>.

  A number passed as \<^verbatim>\<open>expires_delta\<close> is modelled by what the code asks of
  it: whether it is zero, and the duration that \<^verbatim>\<open>timedelta(seconds=...)\<close> makes of
  it. The number zero is \<open>NumZero\<close>; a whole number \<open>k\<close> of seconds, as an
  \<^verbatim>\<open>int\<close> or a \<^verbatim>\<open>float\<close>, is \<open>NumDuration (1000000 * k)\<close>; any other finite
  float is \<open>NumDuration u\<close> for the number \<open>u\<close> of microseconds that Python rounds
  it to (the floating-point rounding itself is not part of the model); an infinity
  is \<open>NumInfinity\<close> and not-a-number is \<open>NumNaN\<close>.
\<close>

definition datetime_min :: int where
  "datetime_min = - 62135596800000000"

definition datetime_max :: int where
  "datetime_max = 253402300799999999"

definition timedelta_min :: int where
  "timedelta_min = - 86399999913600000000"

definition timedelta_max :: int where
  "timedelta_max = 86399999999999999999"

definition is_datetime :: "int \<Rightarrow> bool" where
  "is_datetime t = (datetime_min \<le> t \<and> t \<le> datetime_max)"

definition is_timedelta :: "int \<Rightarrow> bool" where
  "is_timedelta d = (timedelta_min \<le> d \<and> d \<le> timedelta_max)"

datatype pynumber = NumZero | NumDuration int | NumInfinity | NumNaN

definition timedelta_seconds :: "pynumber \<Rightarrow> error + int" where
  "timedelta_seconds n =
     (case n of
        NumZero \<Rightarrow> Inr 0
      | NumDuration u \<Rightarrow>
          if is_timedelta u then Inr u else Inl OverflowError
      | NumInfinity \<Rightarrow> Inl OverflowError
      | NumNaN \<Rightarrow> Inl ValueError)"

definition whole_seconds :: "int \<Rightarrow> pynumber" where
  \<comment> \<open>the number \<open>k\<close>, an \<^verbatim>\<open>int\<close> or a \<^verbatim>\<open>float\<close> without a fractional part\<close>
  "whole_seconds k = (if k = 0 then NumZero else NumDuration (1000000 * k))"

definition datetime_add :: "int \<Rightarrow> int \<Rightarrow> error + int" where
  "datetime_add t d =
     (if is_datetime (t + d) then Inr (t + d) else Inl OverflowError)"

definition timegm :: "int \<Rightarrow> int" where
  "timegm t = t div 1000000"

text \<open>
  The readings of the clock (\<^verbatim>\<open>datetime.utcnow()\<close>), in microseconds. Issuing a
  token reads the clock for the expiry and then again for \<^verbatim>\<open>iat\<close>; decoding
  reads it for the check of \<^verbatim>\<open>nbf\<close> and again for the check of \<^verbatim>\<open>exp\<close>, when
  the token has these claims.
\<close>

record issue_times =
  now_expire :: int
  now_iat :: int

record decode_times =
  now_nbf :: int
  now_exp :: int

section \<open>The token codec (python-jose), symbolically\<close>

text \<open>
  \<^verbatim>\<open>jwt.encode\<close> and \<^verbatim>\<open>jwt.decode\<close> belong to the library python-jose. A token
  string is modelled by what determines it: the signing key, the algorithm and the
  claims in order (the HMAC signature and the JSON text are functions of these, and
  decoding recovers the claims, so two tokens are the same string exactly when these
  agree). \<open>Opaque\<close> stands for every string that is not a signed token. The
  settings are taken to name an HMAC algorithm of the library and a secret fit for
  it, as the defaults do.

  \<open>jwt_decode\<close> verifies the signature under the key and that the algorithm is among
  the accepted ones, and then validates the claims in the library's order:
  \<^verbatim>\<open>iat\<close> has to convert to an integer; \<^verbatim>\<open>nbf\<close> has to convert and must not
  lie after the current second; \<^verbatim>\<open>exp\<close> has to convert and must not lie before
  the current second (a token is still accepted in the second in which it
  expires); \<^verbatim>\<open>aud\<close> must be absent, since no audience is passed; \<^verbatim>\<open>sub\<close> and
  \<^verbatim>\<open>jti\<close> have to be strings; \<^verbatim>\<open>at_hash\<close> must be absent, since no access
  token is passed. A failed check is a \<^verbatim>\<open>JWTError\<close>; a time claim that is
  \<^verbatim>\<open>null\<close> makes \<^verbatim>\<open>int\<close> raise a \<^verbatim>\<open>TypeError\<close>, which the library does not
  catch.
\<close>

datatype token = Jwt string string pydict | Opaque string

fun token_claims :: "token \<Rightarrow> pydict" where
  \<comment> \<open>the claims a token carries, read without verification\<close>
  "token_claims (Jwt k a claims) = claims"
| "token_claims (Opaque s) = []"

definition jwt_encode :: "pydict \<Rightarrow> string \<Rightarrow> string \<Rightarrow> token" where
  "jwt_encode claims key alg = Jwt key alg claims"

definition claim_int :: "pyval \<Rightarrow> error + int" where
  \<comment> \<open>\<^verbatim>\<open>int(v)\<close> with \<^verbatim>\<open>ValueError\<close> turned into \<^verbatim>\<open>JWTClaimsError\<close>\<close>
  "claim_int v =
     (case py_int v of
        Inl e \<Rightarrow> (if e = ValueError then Inl JWTError else Inl e)
      | Inr i \<Rightarrow> Inr i)"

definition validate_iat :: "pydict \<Rightarrow> error option" where
  "validate_iat claims =
     (case map_of claims ''iat'' of
        None \<Rightarrow> None
      | Some v \<Rightarrow> (case claim_int v of Inl e \<Rightarrow> Some e | Inr _ \<Rightarrow> None))"

definition validate_nbf :: "pydict \<Rightarrow> int \<Rightarrow> error option" where
  "validate_nbf claims utcnow =
     (case map_of claims ''nbf'' of
        None \<Rightarrow> None
      | Some v \<Rightarrow>
          (case claim_int v of
             Inl e \<Rightarrow> Some e
           | Inr nbf \<Rightarrow> if nbf > timegm utcnow then Some JWTError else None))"

definition validate_exp :: "pydict \<Rightarrow> int \<Rightarrow> error option" where
  "validate_exp claims utcnow =
     (case map_of claims ''exp'' of
        None \<Rightarrow> None
      | Some v \<Rightarrow>
          (case claim_int v of
             Inl e \<Rightarrow> Some e
           | Inr exp \<Rightarrow> if exp < timegm utcnow then Some JWTError else None))"

definition validate_aud :: "pydict \<Rightarrow> error option" where
  "validate_aud claims =
     (case map_of claims ''aud'' of None \<Rightarrow> None | Some _ \<Rightarrow> Some JWTError)"

definition validate_sub :: "pydict \<Rightarrow> error option" where
  "validate_sub claims =
     (case map_of claims ''sub'' of
        None \<Rightarrow> None
      | Some (PyStr _) \<Rightarrow> None
      | Some _ \<Rightarrow> Some JWTError)"

definition validate_jti :: "pydict \<Rightarrow> error option" where
  "validate_jti claims =
     (case map_of claims ''jti'' of
        None \<Rightarrow> None
      | Some (PyStr _) \<Rightarrow> None
      | Some _ \<Rightarrow> Some JWTError)"

definition validate_at_hash :: "pydict \<Rightarrow> error option" where
  "validate_at_hash claims =
     (case map_of claims ''at_hash'' of None \<Rightarrow> None | Some _ \<Rightarrow> Some JWTError)"

fun first_error :: "error option list \<Rightarrow> error option" where
  "first_error [] = None"
| "first_error (None # xs) = first_error xs"
| "first_error (Some e # xs) = Some e"

definition validate_claims :: "pydict \<Rightarrow> decode_times \<Rightarrow> error option" where
  "validate_claims claims td =
     first_error
       [validate_iat claims, validate_nbf claims (now_nbf td), validate_exp claims (now_exp td),
        validate_aud claims, validate_sub claims, validate_jti claims, validate_at_hash claims]"

definition jwt_decode :: "token \<Rightarrow> string \<Rightarrow> string list \<Rightarrow> decode_times \<Rightarrow> error + pydict" where
  "jwt_decode tok key algorithms td =
     (case tok of
        Opaque _ \<Rightarrow> Inl JWTError
      | Jwt k a claims \<Rightarrow>
          if k = key \<and> a \<in> set algorithms then
            (case validate_claims claims td of Some e \<Rightarrow> Inl e | None \<Rightarrow> Inr claims)
          else Inl JWTError)"

section \<open>Users, roles and the users table\<close>

text \<open>
  Modelled from the spec: \<^verbatim>\<open>src/database/models.py\<close> (the classes \<^verbatim>\<open>Role\<close> and
  \<^verbatim>\<open>User\<close>) is not among the sources. The spec's Principal is an identity record
  with a unique id, email, password hash, display name, role (admin, moderator or
  user), a confirmed flag, an optional current refresh token and an optional avatar
  URL; the field names are those the source reads and writes.
\<close>

datatype Role = admin | moderator | user

record User =
  user_id :: nat
  username :: string
  email :: string
  password :: string
  avatar :: "string option"
  refresh_token :: "token option"
  confirmed :: bool
  roles :: Role

text \<open>
  The table is the list of its rows. \<^verbatim>\<open>filter_by(email=email).first()\<close> is the
  first row whose email column equals the value given (no row when the value is not
  a string). \<^verbatim>\<open>update_token\<close> assigns the attribute on the row object and commits,
  which writes the row with that primary key.
\<close>

definition get_user_by_email :: "pyval \<Rightarrow> User list \<Rightarrow> User option" where
  "get_user_by_email em db = find (\<lambda>u. PyStr (email u) = em) db"

definition update_token :: "User \<Rightarrow> token option \<Rightarrow> User list \<Rightarrow> User list" where
  "update_token usr tok db =
     map (\<lambda>u. if user_id u = user_id usr then u\<lparr>refresh_token := tok\<rparr> else u) db"

section \<open>The session cache (Redis)\<close>

text \<open>
  A cache entry is a pickled Python object with an optional time to live in seconds.
  The objects that occur are a user and \<^verbatim>\<open>None\<close>.
\<close>

datatype pickled = PickledUser User | PickledNone

type_synonym redis = "string \<rightharpoonup> (pickled \<times> nat option)"

definition pickle_dumps :: "User \<Rightarrow> pickled" where
  "pickle_dumps u = PickledUser u"

definition pickle_loads :: "pickled \<Rightarrow> User option" where
  "pickle_loads b = (case b of PickledUser u \<Rightarrow> Some u | PickledNone \<Rightarrow> None)"

definition r_get :: "redis \<Rightarrow> string \<Rightarrow> pickled option" where
  "r_get r k = map_option fst (r k)"

definition r_set :: "redis \<Rightarrow> string \<Rightarrow> pickled \<Rightarrow> redis" where
  "r_set r k v = r(k \<mapsto> (v, None))"

definition r_expire :: "redis \<Rightarrow> string \<Rightarrow> nat \<Rightarrow> redis" where
  "r_expire r k secs = (case r k of None \<Rightarrow> r | Some (v, _) \<Rightarrow> r(k \<mapsto> (v, Some secs)))"

section \<open>The class Auth\<close>

text \<open>
  The attributes of \<^verbatim>\<open>Auth\<close>: the signing secret and algorithm from the settings,
  and the password context. The context is passlib's; the model keeps its
  verification function as a parameter that answers with a truth value, and says
  nothing about what passlib does with a digest it cannot read.
\<close>

record Auth =
  pwd_verify :: "string \<Rightarrow> string \<Rightarrow> bool"
  SECRET_KEY :: string
  ALGORITHM :: string

definition verify_password :: "Auth \<Rightarrow> string \<Rightarrow> string \<Rightarrow> bool" where
  "verify_password self plain_password hashed_password =
     pwd_verify self plain_password hashed_password"

text \<open>
  \<^verbatim>\<open>if expires_delta:\<close> takes the first branch for a number other than zero; for
  \<^verbatim>\<open>None\<close> and for zero it takes the default. The expiry is the first reading of
  the clock plus the duration, written into the token in whole seconds, and
  \<^verbatim>\<open>iat\<close> is the second reading in whole seconds.
\<close>

definition token_expire :: "pynumber option \<Rightarrow> int \<Rightarrow> int \<Rightarrow> error + int" where
  "token_expire expires_delta utcnow default_delta =
     (case expires_delta of
        None \<Rightarrow> datetime_add utcnow default_delta
      | Some n \<Rightarrow>
          if n = NumZero then datetime_add utcnow default_delta
          else (case timedelta_seconds n of
                  Inl e \<Rightarrow> Inl e
                | Inr d \<Rightarrow> datetime_add utcnow d))"

definition create_access_token ::
  "Auth \<Rightarrow> pydict \<Rightarrow> pynumber option \<Rightarrow> issue_times \<Rightarrow> error + token" where
  "create_access_token self data expires_delta ti =
     (case token_expire expires_delta (now_expire ti) (15 * 60 * 1000000) of
        Inl e \<Rightarrow> Inl e
      | Inr expire \<Rightarrow>
          (let to_encode = AList.update ''scope'' (PyStr ''access_token'')
                             (AList.update ''exp'' (PyInt (timegm expire))
                               (AList.update ''iat'' (PyInt (timegm (now_iat ti))) data))
           in Inr (jwt_encode to_encode (SECRET_KEY self) (ALGORITHM self))))"

definition create_refresh_token ::
  "Auth \<Rightarrow> pydict \<Rightarrow> pynumber option \<Rightarrow> issue_times \<Rightarrow> error + token" where
  "create_refresh_token self data expires_delta ti =
     (case token_expire expires_delta (now_expire ti) (7 * 86400 * 1000000) of
        Inl e \<Rightarrow> Inl e
      | Inr expire \<Rightarrow>
          (let to_encode = AList.update ''scope'' (PyStr ''refresh_token'')
                             (AList.update ''exp'' (PyInt (timegm expire))
                               (AList.update ''iat'' (PyInt (timegm (now_iat ti))) data))
           in Inr (jwt_encode to_encode (SECRET_KEY self) (ALGORITHM self))))"

definition create_email_token :: "Auth \<Rightarrow> pydict \<Rightarrow> issue_times \<Rightarrow> error + token" where
  "create_email_token self data ti =
     (case datetime_add (now_expire ti) (7 * 86400 * 1000000) of
        Inl e \<Rightarrow> Inl e
      | Inr expire \<Rightarrow>
          (let to_encode = AList.update ''scope'' (PyStr ''email_token'')
                             (AList.update ''exp'' (PyInt (timegm expire))
                               (AList.update ''iat'' (PyInt (timegm (now_iat ti))) data))
           in Inr (jwt_encode to_encode (SECRET_KEY self) (ALGORITHM self))))"

text \<open>
  The exception that \<^verbatim>\<open>get_current_user\<close> raises on every failure it handles (its
  header \<^verbatim>\<open>WWW-Authenticate: Bearer\<close> is not modelled). Only \<^verbatim>\<open>JWTError\<close> is
  caught around the decoding; another exception of the library passes through.
\<close>

definition credentials_exception :: error where
  "credentials_exception = HTTPException 401 ''Could not validate credentials''"

definition get_current_user ::
  "Auth \<Rightarrow> token \<Rightarrow> decode_times \<Rightarrow> User list \<Rightarrow> redis \<Rightarrow> (error + User) \<times> redis" where
  "get_current_user self tok td db r =
     (case jwt_decode tok (SECRET_KEY self) [ALGORITHM self] td of
        Inl e \<Rightarrow> (if e = JWTError then (Inl credentials_exception, r) else (Inl e, r))
      | Inr payload \<Rightarrow>
          if py_get payload ''scope'' = PyStr ''access_token'' then
            (let em = py_get payload ''sub'' in
             if em = PyNone then (Inl credentials_exception, r)
             else
               (case r_get r (''user:'' @ py_str em) of
                  None \<Rightarrow>
                    (case get_user_by_email em db of
                       None \<Rightarrow> (Inl credentials_exception, r)
                     | Some usr \<Rightarrow>
                         (Inr usr,
                          r_expire (r_set r (''user:'' @ py_str em) (pickle_dumps usr))
                            (''user:'' @ py_str em) 900))
                | Some blob \<Rightarrow>
                    (case pickle_loads blob of
                       None \<Rightarrow> (Inl credentials_exception, r)
                     | Some usr \<Rightarrow> (Inr usr, r))))
          else (Inl credentials_exception, r))"

definition decode_refresh_token :: "Auth \<Rightarrow> token \<Rightarrow> decode_times \<Rightarrow> error + pyval" where
  "decode_refresh_token self tok td =
     (case jwt_decode tok (SECRET_KEY self) [ALGORITHM self] td of
        Inl e \<Rightarrow>
          (if e = JWTError then Inl (HTTPException 401 ''Could not validate credentials'')
           else Inl e)
      | Inr payload \<Rightarrow>
          (case py_index payload ''scope'' of
             Inl e \<Rightarrow> Inl e
           | Inr scope \<Rightarrow>
               if scope = PyStr ''refresh_token'' then py_index payload ''sub''
               else Inl (HTTPException 401 ''Invalid scope for token'')))"

definition get_email_from_token :: "Auth \<Rightarrow> token \<Rightarrow> decode_times \<Rightarrow> error + pyval" where
  \<comment> \<open>when the scope is another one, the function falls off its end and returns \<^verbatim>\<open>None\<close>\<close>
  "get_email_from_token self tok td =
     (case jwt_decode tok (SECRET_KEY self) [ALGORITHM self] td of
        Inl e \<Rightarrow>
          (if e = JWTError then Inl (HTTPException 422 ''Invalid token for email verification'')
           else Inl e)
      | Inr payload \<Rightarrow>
          (case py_index payload ''scope'' of
             Inl e \<Rightarrow> Inl e
           | Inr scope \<Rightarrow>
               if scope = PyStr ''email_token'' then py_index payload ''sub''
               else Inr PyNone))"

section \<open>The routes of \<^verbatim>\<open>/auth\<close>\<close>

datatype TokenModel = TokenModel (access_token: token) (refresh_token_of: token) (token_type: string)

text \<open>
  Both handlers issue the access token and then the refresh token, each with its
  own readings of the clock; an exception while issuing leaves the table as it is.
\<close>

definition login ::
  "Auth \<Rightarrow> string \<Rightarrow> string \<Rightarrow> issue_times \<Rightarrow> issue_times \<Rightarrow> User list
     \<Rightarrow> (error + TokenModel) \<times> User list" where
  "login self body_username body_password ta tr db =
     (case get_user_by_email (PyStr body_username) db of
        None \<Rightarrow> (Inl (HTTPException 401 ''Invalid email''), db)
      | Some usr \<Rightarrow>
          if \<not> confirmed usr then (Inl (HTTPException 401 ''Email not confirmad''), db)
          else if \<not> verify_password self body_password (password usr)
          then (Inl (HTTPException 401 ''Invalid password''), db)
          else
            (case create_access_token self [(''sub'', PyStr (email usr))] None ta of
               Inl e \<Rightarrow> (Inl e, db)
             | Inr access \<Rightarrow>
                 (case create_refresh_token self [(''sub'', PyStr (email usr))] None tr of
                    Inl e \<Rightarrow> (Inl e, db)
                  | Inr refresh \<Rightarrow>
                      (Inr (TokenModel access refresh ''bearer''),
                       update_token usr (Some refresh) db))))"

definition refresh_token_route ::
  "Auth \<Rightarrow> token \<Rightarrow> decode_times \<Rightarrow> issue_times \<Rightarrow> issue_times \<Rightarrow> User list
     \<Rightarrow> (error + TokenModel) \<times> User list" where
  "refresh_token_route self tok td ta tr db =
     (case decode_refresh_token self tok td of
        Inl e \<Rightarrow> (Inl e, db)
      | Inr em \<Rightarrow>
          (case get_user_by_email em db of
             None \<Rightarrow>
               (Inl (AttributeError ''refresh_token''), db)
           | Some usr \<Rightarrow>
               if refresh_token usr \<noteq> Some tok
               then (Inl (HTTPException 401 ''Invalid refresh token''),
                     update_token usr None db)
               else
                 (case create_access_token self [(''sub'', em)] None ta of
                    Inl e \<Rightarrow> (Inl e, db)
                  | Inr access \<Rightarrow>
                      (case create_refresh_token self [(''sub'', em)] None tr of
                         Inl e \<Rightarrow> (Inl e, db)
                       | Inr refresh \<Rightarrow>
                           (Inr (TokenModel access refresh ''bearer''),
                            update_token usr (Some refresh) db)))))"

section \<open>Role-based access (\<^verbatim>\<open>RoleAccess\<close>)\<close>

definition RoleAccess_call :: "Role list \<Rightarrow> User \<Rightarrow> error + unit" where
  "RoleAccess_call allowed_roles current_user =
     (if roles current_user \<notin> set allowed_roles
      then Inl (HTTPException 403 ''Operation forbidden'')
      else Inr ())"

definition allowed_operation_get :: "Role list" where
  "allowed_operation_get = [admin, moderator, user]"

definition allowed_operation_create :: "Role list" where
  "allowed_operation_create = [admin, moderator, user]"

definition allowed_operation_update :: "Role list" where
  "allowed_operation_update = [admin, moderator]"

definition allowed_operation_remove :: "Role list" where
  "allowed_operation_remove = [admin]"

section \<open>Sample data\<close>

text \<open>
  A user, a user whose email is the empty string, an \<^verbatim>\<open>Auth\<close> instance with the
  default settings of \<^verbatim>\<open>src/conf/config.py\<close> and a stand-in for the password
  check, readings of the clock at the start of a second, and the tokens issued to
  the users, for the concrete instances below.
\<close>

definition alice :: User where
  "alice = \<lparr>user_id = 1, username = ''alice1'', email = ''alice@example.com'',
            password = ''hashed:alice'', avatar = None, refresh_token = None,
            confirmed = True, roles = user\<rparr>"


definition example_auth :: Auth where
  "example_auth = \<lparr>pwd_verify = (\<lambda>p h. h = ''hashed:'' @ p),
                    SECRET_KEY = ''secret_key'', ALGORITHM = ''HS256''\<rparr>"

definition issue_at :: "int \<Rightarrow> issue_times" where
  "issue_at s = \<lparr>now_expire = 1000000 * s, now_iat = 1000000 * s\<rparr>"

definition decode_at :: "int \<Rightarrow> decode_times" where
  "decode_at s = \<lparr>now_nbf = 1000000 * s, now_exp = 1000000 * s\<rparr>"

definition alice_claims :: pydict where
  "alice_claims = [(''sub'', PyStr ''alice@example.com'')]"

definition alice_access :: "int \<Rightarrow> token" where
  "alice_access s =
     Jwt ''secret_key'' ''HS256''
       [(''sub'', PyStr ''alice@example.com''), (''iat'', PyInt s), (''exp'', PyInt (s + 900)),
        (''scope'', PyStr ''access_token'')]"

definition alice_refresh :: "int \<Rightarrow> token" where
  "alice_refresh s =
     Jwt ''secret_key'' ''HS256''
       [(''sub'', PyStr ''alice@example.com''), (''iat'', PyInt s), (''exp'', PyInt (s + 604800)),
        (''scope'', PyStr ''refresh_token'')]"


section \<open>Dictionaries, the table and the codec\<close>

lemma claims_exp:
  "py_get (AList.update ''scope'' s (AList.update ''exp'' e (AList.update ''iat'' i data))) ''exp'' = e"
  by (simp add: py_get_def update_conv')

lemma claims_iat:
  "py_get (AList.update ''scope'' s (AList.update ''exp'' e (AList.update ''iat'' i data))) ''iat'' = i"
  by (simp add: py_get_def update_conv')

lemma token_claims_jwt_encode:
  "token_claims (jwt_encode claims key alg) = claims"
  by (simp add: jwt_encode_def)

lemma timegm_add_seconds:
  "timegm (t + 1000000 * k) = timegm t + k"
  by (simp add: timegm_def)

lemma timegm_seconds:
  "timegm (1000000 * s) = s"
  by (simp add: timegm_def)



lemma get_user_by_email_Some:
  "get_user_by_email em db = Some usr \<Longrightarrow> em = PyStr (email usr)"
  by (auto simp: get_user_by_email_def dest: find_Some_iff [THEN iffD1])

lemma find_map_email:
  assumes "\<And>u. email (f u) = email u"
  shows "find (\<lambda>u. PyStr (email u) = em) (map f db)
           = map_option f (find (\<lambda>u. PyStr (email u) = em) db)"
  by (induction db) (simp_all add: assms)

lemma get_user_by_email_update_token:
  assumes "get_user_by_email em db = Some usr"
  shows "get_user_by_email em (update_token usr tok db) = Some (usr\<lparr>refresh_token := tok\<rparr>)"
proof -
  let ?f = "\<lambda>u. if user_id u = user_id usr then u\<lparr>refresh_token := tok\<rparr> else u"
  have "\<And>u. email (?f u) = email u" by simp
  then have "find (\<lambda>u. PyStr (email u) = em) (map ?f db)
               = map_option ?f (find (\<lambda>u. PyStr (email u) = em) db)"
    by (rule find_map_email)
  with assms show ?thesis by (simp add: get_user_by_email_def update_token_def)
qed

lemma decode_refresh_token_ok:
  assumes "jwt_decode tok (SECRET_KEY self) [ALGORITHM self] td = Inr payload"
    and "map_of payload ''scope'' = Some (PyStr ''refresh_token'')"
    and "map_of payload ''sub'' = Some em"
  shows "decode_refresh_token self tok td = Inr em"
  using assms by (simp add: decode_refresh_token_def py_index_def)


lemma get_current_user_valid:
  assumes "jwt_decode tok (SECRET_KEY self) [ALGORITHM self] td = Inr payload"
    and "py_get payload ''scope'' = PyStr ''access_token''"
    and "py_get payload ''sub'' = PyStr e"
  shows "get_current_user self tok td db r =
     (case r (''user:'' @ e) of
        None \<Rightarrow>
          (case get_user_by_email (PyStr e) db of
             None \<Rightarrow> (Inl credentials_exception, r)
           | Some usr \<Rightarrow> (Inr usr, r(''user:'' @ e \<mapsto> (pickle_dumps usr, Some 900))))
      | Some (blob, ttl) \<Rightarrow>
          (case pickle_loads blob of
             None \<Rightarrow> (Inl credentials_exception, r)
           | Some usr \<Rightarrow> (Inr usr, r)))"
  using assms
  by (simp add: get_current_user_def py_str_def r_get_def r_set_def r_expire_def
      split: option.splits prod.splits)

lemmas sample_decode_defs =
  jwt_decode_def validate_claims_def validate_iat_def validate_nbf_def validate_exp_def
  validate_aud_def validate_sub_def validate_jti_def validate_at_hash_def claim_int_def
  py_int_def timegm_def decode_at_def example_auth_def

lemmas sample_issue_defs =
  create_access_token_def create_refresh_token_def token_expire_def datetime_add_def
  is_datetime_def datetime_min_def datetime_max_def timegm_def jwt_encode_def issue_at_def
  example_auth_def alice_claims_def

lemma alice_access_decodes:
  "jwt_decode (alice_access 1000) (SECRET_KEY example_auth) [ALGORITHM example_auth] (decode_at 1000)
     = Inr [(''sub'', PyStr ''alice@example.com''), (''iat'', PyInt 1000),
             (''exp'', PyInt 1900), (''scope'', PyStr ''access_token'')]"
  by (simp add: alice_access_def sample_decode_defs)

lemma alice_refresh_decodes:
  "jwt_decode (alice_refresh 1000) (SECRET_KEY example_auth) [ALGORITHM example_auth] (decode_at 1010)
     = Inr [(''sub'', PyStr ''alice@example.com''), (''iat'', PyInt 1000),
             (''exp'', PyInt 605800), (''scope'', PyStr ''refresh_token'')]"
  by (simp add: alice_refresh_def sample_decode_defs)


lemma find_alice:
  "get_user_by_email (PyStr ''alice@example.com'') [alice] = Some alice"
  by (simp add: get_user_by_email_def alice_def)

lemma create_refresh_token_claims:
  assumes "create_refresh_token self data x ti = Inr tok"
  shows "py_get (token_claims tok) ''iat'' = PyInt (timegm (now_iat ti))"
  using assms
  by (auto simp: create_refresh_token_def token_claims_jwt_encode claims_iat Let_def
      split: sum.splits)

lemma create_refresh_token_inj_time:
  assumes "create_refresh_token self data x t0 = Inr tok"
    and "create_refresh_token self data y t = Inr tok"
  shows "timegm (now_iat t0) = timegm (now_iat t)"
  using create_refresh_token_claims [OF assms(1)] create_refresh_token_claims [OF assms(2)]
  by simp

lemma login_success:
  assumes "get_user_by_email (PyStr e) db = Some usr"
    and "login self e pw ta tr db = (Inr resp, db1)"
  shows "create_refresh_token self [(''sub'', PyStr e)] None tr = Inr (refresh_token_of resp)
       \<and> db1 = update_token usr (Some (refresh_token_of resp)) db"
proof -
  have "email usr = e" using get_user_by_email_Some [OF assms(1)] by simp
  with assms show ?thesis
    by (auto simp: login_def split: if_splits sum.splits)
qed

lemma refresh_success:
  assumes "get_user_by_email (PyStr e) db = Some usr"
    and "decode_refresh_token self tok td = Inr (PyStr e)"
    and "refresh_token_route self tok td ta tr db = (Inr resp, db1)"
  shows "create_refresh_token self [(''sub'', PyStr e)] None tr = Inr (refresh_token_of resp)
       \<and> db1 = update_token usr (Some (refresh_token_of resp)) db"
  using assms by (auto simp: refresh_token_route_def split: if_splits sum.splits)

lemma create_refresh_token_exp:
  assumes "create_refresh_token self data None ti = Inr tok"
  shows "py_get (token_claims tok) ''exp'' = PyInt (timegm (now_expire ti) + 604800)"
proof -
  have "timegm (now_expire ti + 604800000000) = timegm (now_expire ti) + 604800"
    using timegm_add_seconds [of "now_expire ti" 604800] by simp
  with assms show ?thesis
    by (auto simp: create_refresh_token_def token_expire_def datetime_add_def
        token_claims_jwt_encode claims_exp Let_def split: sum.splits if_splits)
qed

lemma create_refresh_token_inj_expire:
  assumes "create_refresh_token self data None t0 = Inr tok"
    and "create_refresh_token self data None t = Inr tok"
  shows "timegm (now_expire t0) = timegm (now_expire t)"
  using create_refresh_token_exp [OF assms(1)] create_refresh_token_exp [OF assms(2)]
  by simp

lemma login_alice_1010:
  "login example_auth ''alice@example.com'' ''alice'' (issue_at 1010) (issue_at 1010)
     [alice\<lparr>refresh_token := Some (alice_refresh 1000)\<rparr>]
     = (Inr (TokenModel (alice_access 1010) (alice_refresh 1010) ''bearer''),
        [alice\<lparr>refresh_token := Some (alice_refresh 1010)\<rparr>])"
  by (simp add: login_def get_user_by_email_def verify_password_def update_token_def
      alice_def alice_access_def alice_refresh_def sample_issue_defs)

lemma decode_alice_refresh_1000:
  "decode_refresh_token example_auth (alice_refresh 1000) (decode_at 1020)
     = Inr (PyStr ''alice@example.com'')"
  by (simp add: decode_refresh_token_def alice_refresh_def py_index_def sample_decode_defs)

lemma token_expire_default:
  "token_expire None t d = (if is_datetime (t + d) then Inr (t + d) else Inl OverflowError)"
  "token_expire (Some NumZero) t d = token_expire None t d"
  by (simp_all add: token_expire_def datetime_add_def)

lemma token_expire_duration:
  "token_expire (Some (NumDuration u)) t d
     = (if is_timedelta u \<and> is_datetime (t + u) then Inr (t + u) else Inl OverflowError)"
  by (simp add: token_expire_def datetime_add_def timedelta_seconds_def)

lemma issued_exp:
  "py_get (token_claims (jwt_encode
      (AList.update ''scope'' s (AList.update ''exp'' e (AList.update ''iat'' i data))) key alg))
     ''exp'' = e"
  by (simp add: token_claims_jwt_encode claims_exp)

lemma issued_iat:
  "py_get (token_claims (jwt_encode
      (AList.update ''scope'' s (AList.update ''exp'' e (AList.update ''iat'' i data))) key alg))
     ''iat'' = i"
  by (simp add: token_claims_jwt_encode claims_iat)

lemma validate_exp_int:
  assumes "map_of claims ''exp'' = Some (PyInt e)"
  shows "(validate_exp claims t = None) = (timegm t \<le> e)"
  using assms by (auto simp: validate_exp_def claim_int_def py_int_def)

section \<open>Resolving the current user\<close>




section \<open>Refreshing a session\<close>

text \<open>
  Claim C2. When the presented token decodes with the scope \<^verbatim>\<open>refresh_token\<close>, the
  table has a user for its subject, and the refresh token stored for that user is
  not the presented token, the refresh handler writes \<^verbatim>\<open>None\<close> into the stored
  refresh token and then raises the exception with status 401 and detail
  ``Invalid refresh token''; the result carries no tokens.
\<close>

theorem refresh_mismatch:
  assumes "jwt_decode tok (SECRET_KEY self) [ALGORITHM self] td = Inr payload"
    and "map_of payload ''scope'' = Some (PyStr ''refresh_token'')"
    and "map_of payload ''sub'' = Some em"
    and "get_user_by_email em db = Some usr"
    and "refresh_token usr \<noteq> Some tok"
  shows "refresh_token_route self tok td ta tr db
           = (Inl (HTTPException 401 ''Invalid refresh token''), update_token usr None db)
       \<and> get_user_by_email em (update_token usr None db) = Some (usr\<lparr>refresh_token := None\<rparr>)"
proof -
  have "decode_refresh_token self tok td = Inr em"
    using assms(1-3) by (rule decode_refresh_token_ok)
  then have "refresh_token_route self tok td ta tr db
           = (Inl (HTTPException 401 ''Invalid refresh token''), update_token usr None db)"
    using assms(4,5) by (simp add: refresh_token_route_def)
  moreover have "get_user_by_email em (update_token usr None db)
                   = Some (usr\<lparr>refresh_token := None\<rparr>)"
    using assms(4) by (rule get_user_by_email_update_token)
  ultimately show ?thesis by simp
qed

text \<open>
  An instance: the user's stored token was issued at second 1005; the token issued
  at second 1000 is presented.
\<close>

theorem refresh_mismatch_witness:
  "refresh_token (alice\<lparr>refresh_token := Some (alice_refresh 1005)\<rparr>) \<noteq> Some (alice_refresh 1000)
   \<and> refresh_token_route example_auth (alice_refresh 1000) (decode_at 1010)
        (issue_at 1010) (issue_at 1010) [alice\<lparr>refresh_token := Some (alice_refresh 1005)\<rparr>]
       = (Inl (HTTPException 401 ''Invalid refresh token''), [alice])
   \<and> get_user_by_email (PyStr ''alice@example.com'') [alice] = Some alice"
proof -
  let ?u = "alice\<lparr>refresh_token := Some (alice_refresh 1005)\<rparr>"
  have sc: "map_of [(''sub'', PyStr ''alice@example.com''), (''iat'', PyInt 1000),
             (''exp'', PyInt 605800), (''scope'', PyStr ''refresh_token'')] ''scope''
            = Some (PyStr ''refresh_token'')" by simp
  have sb: "map_of [(''sub'', PyStr ''alice@example.com''), (''iat'', PyInt 1000),
             (''exp'', PyInt 605800), (''scope'', PyStr ''refresh_token'')] ''sub''
            = Some (PyStr ''alice@example.com'')" by simp
  have fu: "get_user_by_email (PyStr ''alice@example.com'') [?u] = Some ?u"
    by (simp add: get_user_by_email_def alice_def)
  have ne: "refresh_token ?u \<noteq> Some (alice_refresh 1000)"
    by (simp add: alice_refresh_def)
  have up: "update_token ?u None [?u] = [alice]"
    by (simp add: update_token_def alice_def)
  show ?thesis
    using refresh_mismatch [OF alice_refresh_decodes sc sb fu ne, of "issue_at 1010" "issue_at 1010"]
      ne up find_alice
    by simp
qed

text \<open>
  Claim C10. When the presented token decodes with the scope \<^verbatim>\<open>refresh_token\<close> and
  the table has no user for its subject, the lookup returns \<^verbatim>\<open>None\<close> and reading
  \<^verbatim>\<open>user.refresh_token\<close> raises an \<^verbatim>\<open>AttributeError\<close>, which no handler catches:
  the result is no \<^verbatim>\<open>HTTPException\<close> of any status, and the table is unchanged.
\<close>

theorem refresh_unknown_principal:
  assumes "jwt_decode tok (SECRET_KEY self) [ALGORITHM self] td = Inr payload"
    and "map_of payload ''scope'' = Some (PyStr ''refresh_token'')"
    and "map_of payload ''sub'' = Some em"
    and "get_user_by_email em db = None"
  shows "refresh_token_route self tok td ta tr db
           = (Inl (AttributeError ''refresh_token''), db)
       \<and> (\<forall>code detail. fst (refresh_token_route self tok td ta tr db)
             \<noteq> Inl (HTTPException code detail))"
proof -
  have "decode_refresh_token self tok td = Inr em"
    using assms(1-3) by (rule decode_refresh_token_ok)
  then show ?thesis using assms(4) by (simp add: refresh_token_route_def)
qed

theorem refresh_unknown_principal_witness:
  "get_user_by_email (PyStr ''alice@example.com'') [] = None
   \<and> refresh_token_route example_auth (alice_refresh 1000) (decode_at 1010)
        (issue_at 1010) (issue_at 1010) []
       = (Inl (AttributeError ''refresh_token''), [])"
proof -
  have sc: "map_of [(''sub'', PyStr ''alice@example.com''), (''iat'', PyInt 1000),
             (''exp'', PyInt 605800), (''scope'', PyStr ''refresh_token'')] ''scope''
            = Some (PyStr ''refresh_token'')" by simp
  have sb: "map_of [(''sub'', PyStr ''alice@example.com''), (''iat'', PyInt 1000),
             (''exp'', PyInt 605800), (''scope'', PyStr ''refresh_token'')] ''sub''
            = Some (PyStr ''alice@example.com'')" by simp
  have nu: "get_user_by_email (PyStr ''alice@example.com'') [] = None"
    by (simp add: get_user_by_email_def)
  show ?thesis
    using refresh_unknown_principal [OF alice_refresh_decodes sc sb nu,
        of "issue_at 1010" "issue_at 1010"] nu
    by simp
qed

section \<open>Cold and warm cache\<close>

text \<open>
  Claim C8. For an access token that decodes with a subject \<open>e\<close>, a cache with no
  entry for the subject and a cache whose entry for the subject unpickles to what
  the table holds for \<open>e\<close> give the same result: the user of the table. Resolving
  again from the cache that the first resolution left behind gives that result too.
\<close>

theorem cold_warm_cache:
  assumes "jwt_decode tok (SECRET_KEY self) [ALGORITHM self] td = Inr payload"
    and "py_get payload ''scope'' = PyStr ''access_token''"
    and "py_get payload ''sub'' = PyStr e"
    and "r_cold (''user:'' @ e) = None"
    and "r_warm (''user:'' @ e) = Some (blob, ttl)"
    and "pickle_loads blob = get_user_by_email (PyStr e) db"
  shows "fst (get_current_user self tok td db r_cold)
           = fst (get_current_user self tok td db r_warm)
       \<and> fst (get_current_user self tok td db r_warm)
           = (case get_user_by_email (PyStr e) db of
                None \<Rightarrow> Inl credentials_exception | Some u \<Rightarrow> Inr u)
       \<and> fst (get_current_user self tok td db
                (snd (get_current_user self tok td db r_cold)))
           = fst (get_current_user self tok td db r_cold)"
proof -
  note v = assms(1-3)
  have cold: "get_current_user self tok td db r_cold =
      (case get_user_by_email (PyStr e) db of
         None \<Rightarrow> (Inl credentials_exception, r_cold)
       | Some usr \<Rightarrow> (Inr usr, r_cold(''user:'' @ e \<mapsto> (pickle_dumps usr, Some 900))))"
    using get_current_user_valid [OF v, of db r_cold] assms(4) by simp
  have warm: "fst (get_current_user self tok td db r_warm) =
      (case get_user_by_email (PyStr e) db of
         None \<Rightarrow> Inl credentials_exception | Some u \<Rightarrow> Inr u)"
    using get_current_user_valid [OF v, of db r_warm] assms(5,6)
    by (simp split: option.splits)
  have again: "fst (get_current_user self tok td db
                (snd (get_current_user self tok td db r_cold)))
           = fst (get_current_user self tok td db r_cold)"
  proof (cases "get_user_by_email (PyStr e) db")
    case None
    with cold show ?thesis by simp
  next
    case (Some u)
    with cold have s: "snd (get_current_user self tok td db r_cold)
        = r_cold(''user:'' @ e \<mapsto> (pickle_dumps u, Some 900))" by simp
    show ?thesis
      using get_current_user_valid [OF v, of db "r_cold(''user:'' @ e \<mapsto> (pickle_dumps u, Some 900))"]
        cold Some
      by (simp add: s pickle_dumps_def pickle_loads_def)
  qed
  from cold warm again show ?thesis by (simp split: option.splits)
qed

theorem cold_warm_cache_witness:
  "pickle_loads (pickle_dumps alice) = get_user_by_email (PyStr ''alice@example.com'') [alice]
   \<and> fst (get_current_user example_auth (alice_access 1000) (decode_at 1000) [alice] Map.empty)
       = Inr alice
   \<and> fst (get_current_user example_auth (alice_access 1000) (decode_at 1000) [alice]
            [''user:alice@example.com'' \<mapsto> (pickle_dumps alice, Some 17)]) = Inr alice"
proof -
  let ?p = "[(''sub'', PyStr ''alice@example.com''), (''iat'', PyInt 1000),
             (''exp'', PyInt 1900), (''scope'', PyStr ''access_token'')]"
  have sc: "py_get ?p ''scope'' = PyStr ''access_token''" by (simp add: py_get_def)
  have sb: "py_get ?p ''sub'' = PyStr ''alice@example.com''" by (simp add: py_get_def)
  have c: "(Map.empty :: redis) (''user:'' @ ''alice@example.com'') = None" by simp
  have w: "[''user:alice@example.com'' \<mapsto> (pickle_dumps alice, Some (17::nat))]
             (''user:'' @ ''alice@example.com'') = Some (pickle_dumps alice, Some 17)" by simp
  have k: "pickle_loads (pickle_dumps alice) = get_user_by_email (PyStr ''alice@example.com'') [alice]"
    by (simp add: pickle_loads_def pickle_dumps_def find_alice)
  show ?thesis
    using cold_warm_cache [where e = "''alice@example.com''" and r_cold = Map.empty
        and r_warm = "[''user:alice@example.com'' \<mapsto> (pickle_dumps alice, Some 17)]",
        OF alice_access_decodes sc sb c w k] k find_alice
    by simp
qed

section \<open>Rotation of the refresh token\<close>

text \<open>
  Claim C3, as the code has it. A successful login and a successful refresh both
  issue the refresh token of the current second and overwrite the single refresh
  token stored for the user with it. A refresh token issued for the user in another
  second differs from the new one, and every presented token that differs from the
  new one and decodes as a refresh token of the user is refused with status 401 and
  detail ``Invalid refresh token''. (A token issued in the same second is the same
  string and stays valid.)
\<close>

theorem refresh_token_rotation:
  assumes "get_user_by_email (PyStr e) db = Some usr"
    and "login self e pw ta tr db = (Inr resp, db1)
       \<or> (decode_refresh_token self tok td = Inr (PyStr e)
            \<and> refresh_token_route self tok td ta tr db = (Inr resp, db1))"
  shows "create_refresh_token self [(''sub'', PyStr e)] None tr = Inr (refresh_token_of resp)
       \<and> get_user_by_email (PyStr e) db1
           = Some (usr\<lparr>refresh_token := Some (refresh_token_of resp)\<rparr>)
       \<and> (\<forall>tr0. timegm (now_iat tr0) \<noteq> timegm (now_iat tr)
                  \<or> timegm (now_expire tr0) \<noteq> timegm (now_expire tr) \<longrightarrow>
             create_refresh_token self [(''sub'', PyStr e)] None tr0
               \<noteq> Inr (refresh_token_of resp))
       \<and> (\<forall>old td' ta' tr'. old \<noteq> refresh_token_of resp
               \<and> decode_refresh_token self old td' = Inr (PyStr e) \<longrightarrow>
             refresh_token_route self old td' ta' tr' db1
               = (Inl (HTTPException 401 ''Invalid refresh token''),
                  update_token (usr\<lparr>refresh_token := Some (refresh_token_of resp)\<rparr>) None db1))"
proof -
  let ?new = "refresh_token_of resp"
  from assms have new: "create_refresh_token self [(''sub'', PyStr e)] None tr = Inr ?new"
    and db1: "db1 = update_token usr (Some ?new) db"
    using login_success refresh_success by blast+
  have stored: "get_user_by_email (PyStr e) db1 = Some (usr\<lparr>refresh_token := Some ?new\<rparr>)"
    unfolding db1 using assms(1) by (rule get_user_by_email_update_token)
  have fresh: "\<forall>tr0. timegm (now_iat tr0) \<noteq> timegm (now_iat tr)
                  \<or> timegm (now_expire tr0) \<noteq> timegm (now_expire tr) \<longrightarrow>
             create_refresh_token self [(''sub'', PyStr e)] None tr0 \<noteq> Inr ?new"
    using create_refresh_token_inj_time [OF _ new] create_refresh_token_inj_expire [OF _ new]
    by blast
  have stale: "\<forall>old td' ta' tr'. old \<noteq> ?new \<and> decode_refresh_token self old td' = Inr (PyStr e) \<longrightarrow>
             refresh_token_route self old td' ta' tr' db1
               = (Inl (HTTPException 401 ''Invalid refresh token''),
                  update_token (usr\<lparr>refresh_token := Some ?new\<rparr>) None db1)"
    using stored by (auto simp: refresh_token_route_def)
  from new stored fresh stale show ?thesis by blast
qed

text \<open>
  An instance, the scenario of the spec: the user holds the token of second 1000 and
  logs in again at second 1010; the token of second 1000, presented at second 1020,
  is refused and the stored token is cleared.
\<close>

theorem refresh_token_rotation_witness:
  "login example_auth ''alice@example.com'' ''alice'' (issue_at 1010) (issue_at 1010)
     [alice\<lparr>refresh_token := Some (alice_refresh 1000)\<rparr>]
     = (Inr (TokenModel (alice_access 1010) (alice_refresh 1010) ''bearer''),
        [alice\<lparr>refresh_token := Some (alice_refresh 1010)\<rparr>])
   \<and> refresh_token_route example_auth (alice_refresh 1000) (decode_at 1020)
        (issue_at 1020) (issue_at 1020) [alice\<lparr>refresh_token := Some (alice_refresh 1010)\<rparr>]
       = (Inl (HTTPException 401 ''Invalid refresh token''), [alice])"
proof -
  let ?db = "[alice\<lparr>refresh_token := Some (alice_refresh 1000)\<rparr>]"
  have a: "get_user_by_email (PyStr ''alice@example.com'') ?db
             = Some (alice\<lparr>refresh_token := Some (alice_refresh 1000)\<rparr>)"
    by (simp add: get_user_by_email_def alice_def)
  have ne: "alice_refresh 1000 \<noteq> alice_refresh 1010"
    by (simp add: alice_refresh_def)
  have "refresh_token_route example_auth (alice_refresh 1000) (decode_at 1020)
          (issue_at 1020) (issue_at 1020) [alice\<lparr>refresh_token := Some (alice_refresh 1010)\<rparr>]
        = (Inl (HTTPException 401 ''Invalid refresh token''),
           update_token (alice\<lparr>refresh_token := Some (alice_refresh 1000)\<rparr>
                           \<lparr>refresh_token := Some (alice_refresh 1010)\<rparr>) None
             [alice\<lparr>refresh_token := Some (alice_refresh 1010)\<rparr>])"
    using refresh_token_rotation [OF a disjI1 [OF login_alice_1010]]
      ne decode_alice_refresh_1000 unfolding TokenModel.sel by blast
  then show ?thesis using login_alice_1010 by (simp add: update_token_def alice_def)
qed

text \<open>
  Two logins in the same second, at different microseconds, issue the same refresh
  token: the token of the first login still equals the stored one after the second
  login, and a refresh with it succeeds.
\<close>

theorem same_second_tokens_counterexample:
  "login example_auth ''alice@example.com'' ''alice''
       \<lparr>now_expire = 1000100000, now_iat = 1000100001\<rparr>
       \<lparr>now_expire = 1000100002, now_iat = 1000100003\<rparr> [alice]
     = (Inr (TokenModel (alice_access 1000) (alice_refresh 1000) ''bearer''),
        [alice\<lparr>refresh_token := Some (alice_refresh 1000)\<rparr>])
   \<and> login example_auth ''alice@example.com'' ''alice''
       \<lparr>now_expire = 1000800000, now_iat = 1000800001\<rparr>
       \<lparr>now_expire = 1000800002, now_iat = 1000800003\<rparr>
       [alice\<lparr>refresh_token := Some (alice_refresh 1000)\<rparr>]
     = (Inr (TokenModel (alice_access 1000) (alice_refresh 1000) ''bearer''),
        [alice\<lparr>refresh_token := Some (alice_refresh 1000)\<rparr>])
   \<and> refresh_token_route example_auth (alice_refresh 1000) (decode_at 1010)
       (issue_at 1010) (issue_at 1010) [alice\<lparr>refresh_token := Some (alice_refresh 1000)\<rparr>]
     = (Inr (TokenModel (alice_access 1010) (alice_refresh 1010) ''bearer''),
        [alice\<lparr>refresh_token := Some (alice_refresh 1010)\<rparr>])"
  by (simp add: login_def refresh_token_route_def decode_refresh_token_def
      get_user_by_email_def verify_password_def update_token_def py_index_def
      alice_def alice_access_def alice_refresh_def sample_issue_defs sample_decode_defs)

section \<open>Email verification tokens\<close>

text \<open>
  Claim C4 does not hold of the code. For a token that decodes and whose scope is
  not \<^verbatim>\<open>email_token\<close>, \<^verbatim>\<open>get_email_from_token\<close> raises nothing: the condition
  fails, no branch raises, and the function returns \<^verbatim>\<open>None\<close>. Here it is given
  the access token issued to the sample user. (\<^verbatim>\<open>decode_refresh_token\<close> raises
  ``Invalid scope for token'' at the same place.)
\<close>

theorem get_email_from_token_access_scope:
  "create_access_token example_auth alice_claims None (issue_at 1000) = Inr (alice_access 1000)
   \<and> get_email_from_token example_auth (alice_access 1000) (decode_at 1000) = Inr PyNone"
  by (simp add: get_email_from_token_def alice_access_def py_index_def
      sample_issue_defs sample_decode_defs)

section \<open>Login failures\<close>

text \<open>
  Claim C5, as the code has it. A login with an email that has no user in the table
  and a login with the email of a confirmed user and a wrong password both fail
  with status 401 and leave the table unchanged, but with different details:
  ``Invalid email'' for the first and ``Invalid password'' for the second.
\<close>

theorem login_failures:
  assumes "get_user_by_email (PyStr e1) db = None"
    and "get_user_by_email (PyStr e2) db = Some usr"
    and "confirmed usr"
    and "\<not> pwd_verify self p2 (password usr)"
  shows "login self e1 p1 ta tr db = (Inl (HTTPException 401 ''Invalid email''), db)
       \<and> login self e2 p2 ta tr db = (Inl (HTTPException 401 ''Invalid password''), db)"
  using assms by (simp add: login_def verify_password_def)

theorem login_failures_witness:
  "login example_auth ''bob@example.com'' ''secret'' (issue_at 1000) (issue_at 1000) [alice]
     = (Inl (HTTPException 401 ''Invalid email''), [alice])
   \<and> login example_auth ''alice@example.com'' ''wrong'' (issue_at 1000) (issue_at 1000) [alice]
     = (Inl (HTTPException 401 ''Invalid password''), [alice])"
proof -
  have a: "get_user_by_email (PyStr ''bob@example.com'') [alice] = None"
    by (simp add: get_user_by_email_def alice_def)
  have c: "confirmed alice" by (simp add: alice_def)
  have d: "\<not> pwd_verify example_auth ''wrong'' (password alice)"
    by (simp add: alice_def example_auth_def)
  show ?thesis using login_failures [OF a find_alice c d] by simp
qed

text \<open>
  The two failures are different results: the caller can tell an unknown email from
  a wrong password.
\<close>

theorem login_failures_counterexample:
  "login example_auth ''bob@example.com'' ''wrong'' (issue_at 1000) (issue_at 1000) [alice]
     \<noteq> login example_auth ''alice@example.com'' ''wrong'' (issue_at 1000) (issue_at 1000) [alice]"
  by (simp add: login_def get_user_by_email_def verify_password_def alice_def example_auth_def)

section \<open>Authorization by role\<close>

text \<open>
  Claim C6. A \<^verbatim>\<open>RoleAccess\<close> built with a list of allowed roles accepts a user
  exactly when the user's role is in the list, and otherwise raises the exception
  with status 403; no role stands for another (an admin is refused when the list
  has only moderator and user). The lists declared for the routes are admin,
  moderator and user for reading, admin and moderator for updating, admin for
  removing; the one for updating refuses the role user and accepts moderator and
  admin.
\<close>

theorem RoleAccess_membership:
  "(RoleAccess_call allowed_roles u = Inr ()) = (roles u \<in> set allowed_roles)
   \<and> (RoleAccess_call allowed_roles u = Inl (HTTPException 403 ''Operation forbidden''))
       = (roles u \<notin> set allowed_roles)
   \<and> set allowed_operation_get = {admin, moderator, user}
   \<and> set allowed_operation_update = {admin, moderator}
   \<and> set allowed_operation_remove = {admin}
   \<and> RoleAccess_call allowed_operation_update (u\<lparr>roles := user\<rparr>)
       = Inl (HTTPException 403 ''Operation forbidden'')
   \<and> RoleAccess_call allowed_operation_update (u\<lparr>roles := moderator\<rparr>) = Inr ()
   \<and> RoleAccess_call allowed_operation_update (u\<lparr>roles := admin\<rparr>) = Inr ()
   \<and> RoleAccess_call [moderator, user] (u\<lparr>roles := admin\<rparr>)
       = Inl (HTTPException 403 ''Operation forbidden'')"
  by (simp add: RoleAccess_call_def allowed_operation_get_def allowed_operation_update_def
      allowed_operation_remove_def)

theorem RoleAccess_membership_witness:
  "roles alice \<notin> set allowed_operation_update
   \<and> RoleAccess_call allowed_operation_update alice
       = Inl (HTTPException 403 ''Operation forbidden'')
   \<and> RoleAccess_call allowed_operation_get alice = Inr ()"
  using RoleAccess_membership [of allowed_operation_update alice]
    RoleAccess_membership [of allowed_operation_get alice]
  by (simp add: alice_def)

section \<open>Token lifetimes\<close>

text \<open>
  Claim C9, as the code has it. Issuing a token reads the clock once for the expiry
  and once more for \<^verbatim>\<open>iat\<close>, and writes both into the token in whole seconds.
  Whatever the claims passed in, and as long as the expiry is a date (up to the end
  of year 9999; otherwise \<^verbatim>\<open>OverflowError\<close> is raised and no token is issued):
  an access token issued without a lifetime, or with the lifetime zero, carries the
  expiry 900 seconds after the second of the first reading; one issued with a whole
  number of seconds other than zero carries the expiry that many seconds after it;
  one issued with any other lifetime carries the second of the sum of the first
  reading and the lifetime; a refresh token issued without a lifetime and every
  email token carry the expiry 604800 seconds (7 days) after the second of the
  first reading. \<^verbatim>\<open>iat\<close> is the second of the second reading, so the expiry lies
  the lifetime after \<^verbatim>\<open>iat\<close> when both readings fall into one second. The
  library's check of the expiry passes up to and including the second of the
  expiry, and not after.
\<close>

theorem token_lifetimes:
  "(is_datetime (now_expire ti + 900000000) \<longrightarrow>
      (\<exists>tok. create_access_token self data None ti = Inr tok
         \<and> py_get (token_claims tok) ''exp'' = PyInt (timegm (now_expire ti) + 900)
         \<and> py_get (token_claims tok) ''iat'' = PyInt (timegm (now_iat ti))))
   \<and> (\<not> is_datetime (now_expire ti + 900000000) \<longrightarrow>
        create_access_token self data None ti = Inl OverflowError)
   \<and> create_access_token self data (Some (whole_seconds 0)) ti
       = create_access_token self data None ti
   \<and> (k \<noteq> 0 \<and> is_timedelta (1000000 * k) \<and> is_datetime (now_expire ti + 1000000 * k) \<longrightarrow>
      (\<exists>tok. create_access_token self data (Some (whole_seconds k)) ti = Inr tok
         \<and> py_get (token_claims tok) ''exp'' = PyInt (timegm (now_expire ti) + k)
         \<and> py_get (token_claims tok) ''iat'' = PyInt (timegm (now_iat ti))))
   \<and> (is_timedelta u \<and> is_datetime (now_expire ti + u) \<longrightarrow>
      (\<exists>tok. create_access_token self data (Some (NumDuration u)) ti = Inr tok
         \<and> py_get (token_claims tok) ''exp'' = PyInt (timegm (now_expire ti + u))
         \<and> py_get (token_claims tok) ''iat'' = PyInt (timegm (now_iat ti))))
   \<and> (\<not> (is_timedelta u \<and> is_datetime (now_expire ti + u)) \<longrightarrow>
        create_access_token self data (Some (NumDuration u)) ti = Inl OverflowError)
   \<and> (is_datetime (now_expire ti + 604800000000) \<longrightarrow>
      (\<exists>tok. create_refresh_token self data None ti = Inr tok
         \<and> py_get (token_claims tok) ''exp'' = PyInt (timegm (now_expire ti) + 604800)
         \<and> py_get (token_claims tok) ''iat'' = PyInt (timegm (now_iat ti))))
   \<and> (is_datetime (now_expire ti + 604800000000) \<longrightarrow>
      (\<exists>tok. create_email_token self data ti = Inr tok
         \<and> py_get (token_claims tok) ''exp'' = PyInt (timegm (now_expire ti) + 604800)
         \<and> py_get (token_claims tok) ''iat'' = PyInt (timegm (now_iat ti))))
   \<and> (map_of claims ''exp'' = Some (PyInt e) \<longrightarrow>
        (validate_exp claims t = None) = (timegm t \<le> e))"
proof -
  have a: "timegm (now_expire ti + 900000000) = timegm (now_expire ti) + 900"
    using timegm_add_seconds [of "now_expire ti" 900] by simp
  have b: "timegm (now_expire ti + 604800000000) = timegm (now_expire ti) + 604800"
    using timegm_add_seconds [of "now_expire ti" 604800] by simp
  have c: "timegm (now_expire ti + 1000000 * k) = timegm (now_expire ti) + k"
    by (rule timegm_add_seconds)
  have access_default:
    "is_datetime (now_expire ti + 900000000) \<longrightarrow>
      (\<exists>tok. create_access_token self data None ti = Inr tok
         \<and> py_get (token_claims tok) ''exp'' = PyInt (timegm (now_expire ti) + 900)
         \<and> py_get (token_claims tok) ''iat'' = PyInt (timegm (now_iat ti)))"
    by (simp add: create_access_token_def token_expire_default issued_exp issued_iat a)
  have access_overflow:
    "\<not> is_datetime (now_expire ti + 900000000) \<longrightarrow>
        create_access_token self data None ti = Inl OverflowError"
    by (simp add: create_access_token_def token_expire_default)
  have access_zero:
    "create_access_token self data (Some (whole_seconds 0)) ti
       = create_access_token self data None ti"
    by (simp add: create_access_token_def whole_seconds_def token_expire_default)
  have access_whole:
    "k \<noteq> 0 \<and> is_timedelta (1000000 * k) \<and> is_datetime (now_expire ti + 1000000 * k) \<longrightarrow>
      (\<exists>tok. create_access_token self data (Some (whole_seconds k)) ti = Inr tok
         \<and> py_get (token_claims tok) ''exp'' = PyInt (timegm (now_expire ti) + k)
         \<and> py_get (token_claims tok) ''iat'' = PyInt (timegm (now_iat ti)))"
    by (simp add: create_access_token_def whole_seconds_def token_expire_duration
        issued_exp issued_iat c)
  have access_any:
    "is_timedelta u \<and> is_datetime (now_expire ti + u) \<longrightarrow>
      (\<exists>tok. create_access_token self data (Some (NumDuration u)) ti = Inr tok
         \<and> py_get (token_claims tok) ''exp'' = PyInt (timegm (now_expire ti + u))
         \<and> py_get (token_claims tok) ''iat'' = PyInt (timegm (now_iat ti)))"
    by (simp add: create_access_token_def token_expire_duration issued_exp issued_iat)
  have access_any_overflow:
    "\<not> (is_timedelta u \<and> is_datetime (now_expire ti + u)) \<longrightarrow>
        create_access_token self data (Some (NumDuration u)) ti = Inl OverflowError"
    by (simp add: create_access_token_def token_expire_duration)
  have refresh_default:
    "is_datetime (now_expire ti + 604800000000) \<longrightarrow>
      (\<exists>tok. create_refresh_token self data None ti = Inr tok
         \<and> py_get (token_claims tok) ''exp'' = PyInt (timegm (now_expire ti) + 604800)
         \<and> py_get (token_claims tok) ''iat'' = PyInt (timegm (now_iat ti)))"
    by (simp add: create_refresh_token_def token_expire_default issued_exp issued_iat b)
  have email:
    "is_datetime (now_expire ti + 604800000000) \<longrightarrow>
      (\<exists>tok. create_email_token self data ti = Inr tok
         \<and> py_get (token_claims tok) ''exp'' = PyInt (timegm (now_expire ti) + 604800)
         \<and> py_get (token_claims tok) ''iat'' = PyInt (timegm (now_iat ti)))"
    by (simp add: create_email_token_def datetime_add_def issued_exp issued_iat b)
  have expiry:
    "map_of claims ''exp'' = Some (PyInt e) \<longrightarrow>
        (validate_exp claims t = None) = (timegm t \<le> e)"
    using validate_exp_int by blast
  from access_default access_overflow access_zero access_whole access_any
    access_any_overflow refresh_default email expiry
  show ?thesis by (intro conjI)
qed

text \<open>
  An instance: a lifetime of 90 seconds, with the first reading of the clock at
  1000.9 seconds and the second at 1001.1 seconds.
\<close>

theorem token_lifetimes_witness:
  "(90::int) \<noteq> 0 \<and> is_timedelta (1000000 * 90) \<and> is_datetime (1000900000 + 1000000 * 90)
   \<and> (\<exists>tok. create_access_token example_auth alice_claims (Some (whole_seconds 90))
              \<lparr>now_expire = 1000900000, now_iat = 1001100000\<rparr> = Inr tok
         \<and> py_get (token_claims tok) ''exp'' = PyInt 1090
         \<and> py_get (token_claims tok) ''iat'' = PyInt 1001)"
proof -
  have r: "is_timedelta (1000000 * 90) \<and> is_datetime (1000900000 + 1000000 * 90)"
    by (simp add: is_timedelta_def is_datetime_def timedelta_min_def timedelta_max_def
        datetime_min_def datetime_max_def)
  show ?thesis
    using token_lifetimes [of "\<lparr>now_expire = 1000900000, now_iat = 1001100000\<rparr>"
        example_auth alice_claims 90] r
    by (simp add: timegm_def)
qed

text \<open>
  The lifetime 0 gives the expiry 900 seconds after the issue; the lifetime of
  1000000000000 seconds raises \<^verbatim>\<open>OverflowError\<close>; the lifetime of half a second,
  at the start of second 1000, gives the expiry 1000; and without a lifetime, with
  the first reading in second 999 and the second in second 1000, the expiry lies
  899 seconds after \<^verbatim>\<open>iat\<close>.
\<close>

theorem lifetime_counterexample:
  "create_access_token example_auth alice_claims (Some (whole_seconds 0)) (issue_at 1000)
     = Inr (alice_access 1000)
   \<and> py_get (token_claims (alice_access 1000)) ''exp'' = PyInt 1900
   \<and> create_access_token example_auth alice_claims (Some (whole_seconds 1000000000000))
        (issue_at 1000) = Inl OverflowError
   \<and> create_access_token example_auth alice_claims (Some (NumDuration 500000)) (issue_at 1000)
     = Inr (Jwt ''secret_key'' ''HS256''
              [(''sub'', PyStr ''alice@example.com''), (''iat'', PyInt 1000),
               (''exp'', PyInt 1000), (''scope'', PyStr ''access_token'')])
   \<and> create_access_token example_auth alice_claims None
        \<lparr>now_expire = 999999999, now_iat = 1000000001\<rparr>
     = Inr (Jwt ''secret_key'' ''HS256''
              [(''sub'', PyStr ''alice@example.com''), (''iat'', PyInt 1000),
               (''exp'', PyInt 1899), (''scope'', PyStr ''access_token'')])"
  by (simp add: alice_access_def whole_seconds_def timedelta_seconds_def is_timedelta_def
      timedelta_min_def timedelta_max_def py_get_def sample_issue_defs)

end
